theory Spec2Isabelle
  imports Main "HOL-Library.Word"
begin

unbundle bit_operations_syntax

section \<open>Machine-level types\<close>

text \<open>
  The module is C for 32-bit \<open>int\<close>: every \<open>int\<close> field and parameter is a
  \<open>32 word\<close>, read as two's complement by \<open>sint\<close> and compared with \<open><s\<close> and
  \<open><=s\<close>; \<open>+\<close> and \<open>-\<close> wrap around.  Pointers are \<open>option\<close> values, \<open>None\<close>
  being \<open>NULL\<close>.
\<close>

type_synonym cint = "32 word"
type_synonym byte = "8 word"
type_synonym addr = nat

text \<open>
  Ways in which a call does not return normally: an access outside an allocated block
  or through \<open>NULL\<close> (undefined behaviour in C), and \<open>Tcl_Panic\<close>, which prints its
  message and aborts the process.
\<close>

datatype fault = MemFault | NullDeref | Panic string

abbreviation (input) TCL_OK :: cint where "TCL_OK \<equiv> 0"
abbreviation (input) TCL_ERROR :: cint where "TCL_ERROR \<equiv> 1"

section \<open>Data buffer\<close>

text \<open>
  \<open>struct IocpDataBuffer\<close>: the storage block (\<open>dataPtr\<close>, \<open>NULL\<close> or the bytes of
  the allocated block), its \<open>capacity\<close>, the offset \<open>begin\<close> of the first unread byte
  (named \<open>begin_off\<close> here, \<open>begin\<close> being reserved) and the number \<open>len\<close> of unread
  bytes.
\<close>

record IocpDataBuffer =
  dataPtr :: "byte list option"
  capacity :: cint
  begin_off :: cint
  len :: cint

text \<open>
  \<open>IocpDataBufferInit(dataBuf, capacity)\<close>.  The allocator \<open>attemptckalloc\<close> is the
  environment's: it takes the size as \<open>unsigned int\<close> and returns a block or \<open>NULL\<close>.
  The result is the returned storage pointer and the initialised structure.
\<close>

definition IocpDataBufferInit ::
  "(nat \<Rightarrow> byte list option) \<Rightarrow> cint \<Rightarrow> byte list option \<times> IocpDataBuffer" where
  "IocpDataBufferInit attemptckalloc cap =
     (let d0 = \<lparr>dataPtr = None, capacity = cap, begin_off = 0, len = 0\<rparr>;
          d1 = (if cap \<noteq> 0
                then (let d = d0\<lparr>dataPtr := attemptckalloc (unat cap)\<rparr>
                      in if dataPtr d = None then d\<lparr>capacity := 0\<rparr> else d)
                else d0\<lparr>dataPtr := None\<rparr>)
      in (dataPtr d1, d1))"

text \<open>
  \<open>memcpy(dst, blk + off, n)\<close> seen from the source block: the bytes written to the
  destination.  The count is converted to \<open>size_t\<close>, so a negative \<open>int\<close> asks for more
  bytes than any block holds; reading outside the block is undefined behaviour.
\<close>

definition memcpy :: "byte list \<Rightarrow> cint \<Rightarrow> cint \<Rightarrow> fault + byte list" where
  "memcpy blk off n =
     (if 0 <=s off \<and> 0 <=s n \<and> sint off + sint n \<le> int (length blk)
      then Inr (take (nat (sint n)) (drop (nat (sint off)) blk))
      else Inl MemFault)"

text \<open>
  \<open>IocpDataBufferMove(dataBuf, outPtr, len)\<close>: the returned count, the bytes written at
  \<open>outPtr\<close> (none when there is no storage) and the updated buffer.
\<close>

definition IocpDataBufferMove ::
  "IocpDataBuffer \<Rightarrow> cint \<Rightarrow> fault + (cint \<times> byte list \<times> IocpDataBuffer)" where
  "IocpDataBufferMove dataBuf l =
     (let numCopied = (if l <s len dataBuf then l else len dataBuf)
      in case (case dataPtr dataBuf of
                 None \<Rightarrow> Inr []
               | Some blk \<Rightarrow> memcpy blk (begin_off dataBuf) numCopied) of
           Inl f \<Rightarrow> Inl f
         | Inr out \<Rightarrow>
             Inr (numCopied, out,
                  dataBuf\<lparr>begin_off := begin_off dataBuf + numCopied,
                          len := len dataBuf - numCopied\<rparr>))"

text \<open>A sequence of moves on one buffer, stopping at the first fault.\<close>

fun IocpDataBufferMoves ::
  "IocpDataBuffer \<Rightarrow> cint list \<Rightarrow> fault + (cint \<times> byte list \<times> IocpDataBuffer) list" where
  "IocpDataBufferMoves d [] = Inr []"
| "IocpDataBufferMoves d (l # ls) =
     (case IocpDataBufferMove d l of
        Inl f \<Rightarrow> Inl f
      | Inr (n, out, d') \<Rightarrow>
          (case IocpDataBufferMoves d' ls of
             Inl f \<Rightarrow> Inl f
           | Inr rest \<Rightarrow> Inr ((n, out, d') # rest)))"

text \<open>
  The count that a move of \<open>l\<close> bytes takes from a buffer (the local variable
  \<open>numCopied\<close>) and the buffer that the move leaves.
\<close>

definition numCopied :: "IocpDataBuffer \<Rightarrow> cint \<Rightarrow> cint" where
  "numCopied d l = (if l <s len d then l else len d)"

definition moved :: "IocpDataBuffer \<Rightarrow> cint \<Rightarrow> IocpDataBuffer" where
  "moved d l = d\<lparr>begin_off := begin_off d + numCopied d l, len := len d - numCopied d l\<rparr>"

text \<open>
  The data model's invariant, and the well-formedness of a buffer that the C code
  relies on: offsets are not negative and a present block has \<open>capacity\<close> bytes.
\<close>

definition DataBuffer_inv :: "IocpDataBuffer \<Rightarrow> bool" where
  "DataBuffer_inv d \<longleftrightarrow>
     sint (begin_off d) + sint (len d) \<le> sint (capacity d) \<and>
     (capacity d = 0 \<longrightarrow> dataPtr d = None)"

definition DataBuffer_wf :: "IocpDataBuffer \<Rightarrow> bool" where
  "DataBuffer_wf d \<longleftrightarrow>
     0 <=s begin_off d \<and> 0 <=s len d \<and>
     (case dataPtr d of None \<Rightarrow> True | Some blk \<Rightarrow> length blk = unat (capacity d))"

text \<open>An allocator that always succeeds, with zeroed blocks.\<close>

definition ckalloc_zeroed :: "nat \<Rightarrow> byte list option" where
  "ckalloc_zeroed n = Some (replicate n 0)"

section \<open>Calls into the environment\<close>

text \<open>
  The module works through the operating system and the Tcl library.  Each call that
  matters to the properties below is recorded, in program order, as one \<open>call\<close>; where
  its effect on the program's own data is known it is modelled as well.  A function
  pointer of a vtable is its address, and a call through it is \<open>Ev_hook\<close>.
\<close>

datatype call =
    Ev_hook addr
  | Ev_InitializeConditionVariable
  | Ev_IocpLockInit
  | Ev_IocpChannelUnlock
  | Ev_IocpLockDelete
  | Ev_ckfree
  | Ev_ConditionVariableWait
  | Ev_WakeConditionVariable
  | Ev_IocpTsdLock
  | Ev_IocpTsdUnlock
  | Ev_CreateIoCompletionPort
  | Ev_WSAStartup
  | Ev_CreateThread
  | Ev_CloseHandle "addr option"
  | Ev_WSACleanup
  | Ev_Iocp_ReportLastError addr
  | Ev_Tcl_SetResult addr string
  | Ev_Tcl_CreateExitHandler
  | Ev_Tcl_CreateEventSource
  | Ev_Tcl_CreateThreadExitHandler
  | Ev_Tcl_CreateObjCommand addr string
  | Ev_Tcl_PkgProvide addr string string

section \<open>Channel\<close>

text \<open>
  Modelled from the spec: the header \<open>tclWinIocp.h\<close> with \<open>IocpList\<close>, \<open>IocpLink\<close>
  and their initialisers is missing.  A list has a head and a
  tail pointer, a link a next and a previous pointer (fields \<open>next\<close> and \<open>prev\<close>,
  named \<open>next_link\<close> and \<open>prev_link\<close> here); the ready-link pointers are both null
  whenever the channel is not linked, and an initialised list is empty.
\<close>

record IocpList =
  headPtr :: "addr option"
  tailPtr :: "addr option"

record IocpLink =
  next_link :: "addr option"
  prev_link :: "addr option"

definition IocpListInit :: IocpList where
  "IocpListInit = \<lparr>headPtr = None, tailPtr = None\<rparr>"

definition IocpLinkInit :: IocpLink where
  "IocpLinkInit = \<lparr>next_link = None, prev_link = None\<rparr>"

record IocpChannelVtbl =
  initialize :: "addr option"
  finalize :: "addr option"
  allocationSize :: nat

record IocpChannel =
  inputBuffers :: IocpList
  readyLink :: IocpLink
  tsdPtr :: "addr option"
  numRefs :: cint
  flags :: cint
  vtblPtr :: IocpChannelVtbl

text \<open>
  \<open>IocpChannelNew(interp, vtblPtr)\<close>.  \<open>raw\<close> is the block \<open>ckalloc\<close> returns, with
  whatever it holds (\<open>ckalloc\<close> does not return when it cannot allocate); the fields
  the function does not assign keep the block's content.
\<close>

definition IocpChannelNew :: "IocpChannel \<Rightarrow> IocpChannelVtbl \<Rightarrow> IocpChannel \<times> call list" where
  "IocpChannelNew raw vtbl =
     (raw\<lparr>inputBuffers := IocpListInit,
          readyLink := IocpLinkInit,
          tsdPtr := None,
          numRefs := 1,
          vtblPtr := vtbl\<rparr>,
      [Ev_InitializeConditionVariable, Ev_IocpLockInit] @
      (case initialize vtbl of None \<Rightarrow> [] | Some f \<Rightarrow> [Ev_hook f]))"

text \<open>
  \<open>IocpChannelDrop(interp, lockedChanPtr)\<close>: the channel as it is when the function
  returns (or when it is handed to \<open>ckfree\<close>) and the calls made.
\<close>

definition IocpChannelDrop :: "IocpChannel \<Rightarrow> IocpChannel \<times> call list" where
  "IocpChannelDrop lockedChan =
     (let c = lockedChan\<lparr>numRefs := numRefs lockedChan - 1\<rparr>
      in if numRefs c <=s 0
         then (c, (case finalize (vtblPtr c) of None \<Rightarrow> [] | Some f \<Rightarrow> [Ev_hook f]) @
                  [Ev_IocpChannelUnlock, Ev_IocpLockDelete, Ev_ckfree])
         else (c, []))"

text \<open>\<open>n\<close> successive drops of one channel: the channel and the calls of each drop.\<close>

fun IocpChannelDrops :: "nat \<Rightarrow> IocpChannel \<Rightarrow> (IocpChannel \<times> call list) list" where
  "IocpChannelDrops 0 c = []"
| "IocpChannelDrops (Suc n) c =
     (let r = IocpChannelDrop c in r # IocpChannelDrops n (fst r))"

text \<open>
  \<open>IocpChannelAwaitCompletion\<close> and \<open>IocpChannelWakeAfterCompletion\<close>.  The flag
  constant \<open>IOCP_CHAN_F_BLOCKED_FOR_IO\<close> is defined in the header; it is the
  parameter \<open>blocked_flag\<close>.
\<close>

definition IocpChannelAwaitCompletion :: "cint \<Rightarrow> IocpChannel \<Rightarrow> IocpChannel \<times> call list" where
  "IocpChannelAwaitCompletion blocked_flag lockedChan =
     (lockedChan\<lparr>flags := flags lockedChan OR blocked_flag\<rparr>, [Ev_ConditionVariableWait])"

definition IocpChannelWakeAfterCompletion :: "cint \<Rightarrow> IocpChannel \<Rightarrow> IocpChannel \<times> call list" where
  "IocpChannelWakeAfterCompletion blocked_flag lockedChan =
     (if flags lockedChan AND blocked_flag \<noteq> 0
      then (lockedChan\<lparr>flags := flags lockedChan AND NOT blocked_flag\<rparr>,
            [Ev_WakeConditionVariable])
      else (lockedChan, []))"

section \<open>One-time initialisation\<close>

abbreviation (input) IOCP_INITSTATE_INIT :: cint where "IOCP_INITSTATE_INIT \<equiv> 0"
abbreviation (input) IOCP_INITSTATE_IN_PROGRESS :: cint where "IOCP_INITSTATE_IN_PROGRESS \<equiv> 1"
abbreviation (input) IOCP_INITSTATE_DONE :: cint where "IOCP_INITSTATE_DONE \<equiv> 2"
abbreviation (input) IOCP_INITSTATE_ERROR :: cint where "IOCP_INITSTATE_ERROR \<equiv> 3"

text \<open>
  \<open>InterlockedCompareExchange(dest, exchange, comparand)\<close> on the content of the
  cell: the initial content, which it returns, and the content afterwards.
\<close>

definition InterlockedCompareExchange :: "cint \<Rightarrow> cint \<Rightarrow> cint \<Rightarrow> cint \<times> cint" where
  "InterlockedCompareExchange dest exchange comparand =
     (dest, if dest = comparand then exchange else dest)"

text \<open>What a call of \<open>Iocp_DoOnce\<close> does, in order, to the gate and with \<open>once_fn\<close>.\<close>

datatype once_event = Gate_set cint | Once_call

text \<open>
  The result of \<open>Iocp_DoOnce\<close>: the return code, the events, the content of \<open>*stateP\<close>
  and the rest of the memory, which only \<open>once_fn\<close> changes.
\<close>

record 'w once_result =
  rcode :: cint
  events :: "once_event list"
  gate :: cint
  mem :: 'w

text \<open>
  The wait loop of the \<open>IOCP_INITSTATE_IN_PROGRESS\<close> case.  Only another thread ends
  it: \<open>others k\<close> is the content of \<open>*stateP\<close> that the \<open>k\<close>-th test finds.  The
  result is the return code and the content of the cell; the loop may run forever.
\<close>

partial_function (option) Iocp_DoOnce_wait :: "(nat \<Rightarrow> cint) \<Rightarrow> nat \<Rightarrow> (cint \<times> cint) option" where
  "Iocp_DoOnce_wait others k =
     (let r = InterlockedCompareExchange (others k)
                IOCP_INITSTATE_IN_PROGRESS IOCP_INITSTATE_IN_PROGRESS;
          prev_state = fst r
      in if prev_state = IOCP_INITSTATE_DONE then Some (TCL_OK, snd r)
         else if prev_state \<noteq> IOCP_INITSTATE_IN_PROGRESS then Some (TCL_ERROR, snd r)
         else Iocp_DoOnce_wait others (Suc k))"

text \<open>
  \<open>Iocp_DoOnce(stateP, once_fn, clientdata)\<close>.  \<open>once_fn\<close> takes the client data and
  the memory and returns its code and the memory.  \<open>None\<close>: the call never returns.
\<close>

definition Iocp_DoOnce ::
  "(nat \<Rightarrow> cint) \<Rightarrow> ('cd \<Rightarrow> 'w \<Rightarrow> cint \<times> 'w) \<Rightarrow> 'cd \<Rightarrow> cint \<Rightarrow> 'w \<Rightarrow> 'w once_result option" where
  "Iocp_DoOnce others once_fn clientdata state w =
     (let r = InterlockedCompareExchange state
                IOCP_INITSTATE_IN_PROGRESS IOCP_INITSTATE_INIT;
          prev = fst r;
          state1 = snd r
      in if prev = IOCP_INITSTATE_DONE
         then Some \<lparr>rcode = TCL_OK, events = [], gate = state1, mem = w\<rparr>
         else if prev = IOCP_INITSTATE_IN_PROGRESS
         then (case Iocp_DoOnce_wait others 0 of
                 None \<Rightarrow> None
               | Some (rc, st) \<Rightarrow> Some \<lparr>rcode = rc, events = [], gate = st, mem = w\<rparr>)
         else if prev = IOCP_INITSTATE_INIT
         then (let res = once_fn clientdata w
               in if fst res = TCL_OK
                  then Some \<lparr>rcode = TCL_OK,
                             events = [Gate_set state1, Once_call, Gate_set IOCP_INITSTATE_DONE],
                             gate = IOCP_INITSTATE_DONE, mem = snd res\<rparr>
                  else Some \<lparr>rcode = TCL_ERROR,
                             events = [Gate_set state1, Once_call, Gate_set IOCP_INITSTATE_ERROR],
                             gate = IOCP_INITSTATE_ERROR, mem = snd res\<rparr>)
         else Some \<lparr>rcode = TCL_ERROR, events = [], gate = state1, mem = w\<rparr>)"

section \<open>Thread dispatch table\<close>

text \<open>
  \<open>struct IocpTsd\<close>.  The thread identity is a number, 0 once cleared.  The reference
  count is the field \<open>numRefs\<close>, named \<open>tsdRefs\<close> here to keep it apart from the
  channel's.
\<close>

record IocpTsd =
  readyChannels :: IocpList
  threadId :: nat
  tsdRefs :: cint

text \<open>
  \<open>IocpTsdNew()\<close>: \<open>raw\<close> is the block \<open>ckalloc\<close> returns and \<open>tid\<close> what
  \<open>Tcl_GetCurrentThread\<close> answers.
\<close>

definition IocpTsdNew :: "IocpTsd \<Rightarrow> nat \<Rightarrow> IocpTsd \<times> call list" where
  "IocpTsdNew raw tid =
     (raw\<lparr>readyChannels := IocpListInit, threadId := tid, tsdRefs := 1\<rparr>, [Ev_IocpTsdLock])"

text \<open>
  \<open>IocpTsdDrop(lockedTsdPtr)\<close>: the TSD as the function leaves it (or hands it to
  \<open>ckfree\<close>) and the calls made, or the panic.
\<close>

definition IocpTsdDrop :: "IocpTsd \<Rightarrow> fault + (IocpTsd \<times> call list)" where
  "IocpTsdDrop lockedTsd =
     (let t = lockedTsd\<lparr>tsdRefs := tsdRefs lockedTsd - 1\<rparr>;
          do_free = (tsdRefs t <=s 0)
      in if do_free \<and> headPtr (readyChannels t) \<noteq> None
         then Inl (Panic ''Attempt to free IocpTsd with channels attached.'')
         else Inr (t, [Ev_IocpTsdUnlock] @ (if do_free then [Ev_ckfree] else [])))"

text \<open>
  The thread-specific slot.  \<open>IOCP_TSD_INIT\<close> is a macro of the header; its value,
  the address of the calling thread's slot or \<open>NULL\<close>, is the parameter \<open>tsdPtrPtr\<close>.
  The slots are a store from addresses to the TSD pointer held there (\<open>None\<close> for
  \<open>NULL\<close>); a pointer to a TSD is the TSD.  Storing through \<open>NULL\<close> faults.
\<close>

type_synonym slots = "addr \<Rightarrow> IocpTsd option"

definition store_slot :: "addr option \<Rightarrow> IocpTsd option \<Rightarrow> slots \<Rightarrow> fault + slots" where
  "store_slot tsdPtrPtr v sl =
     (case tsdPtrPtr of None \<Rightarrow> Inl NullDeref | Some p \<Rightarrow> Inr (sl(p := v)))"

text \<open>
  \<open>IocpTsdUnlinkThread()\<close>: the slots afterwards and the calls made, those of
  \<open>IocpTsdDrop\<close> included.
\<close>

definition IocpTsdUnlinkThread :: "addr option \<Rightarrow> slots \<Rightarrow> fault + (slots \<times> call list)" where
  "IocpTsdUnlinkThread tsdPtrPtr sl =
     (case tsdPtrPtr of
        None \<Rightarrow> Inr (sl, [])
      | Some p \<Rightarrow>
          (case sl p of
             None \<Rightarrow> Inr (sl, [])
           | Some tsd \<Rightarrow>
               (case IocpTsdDrop (tsd\<lparr>threadId := 0\<rparr>) of
                  Inl f \<Rightarrow> Inl f
                | Inr (t, cs) \<Rightarrow> Inr (sl(p := None), Ev_IocpTsdLock # cs))))"

section \<open>Process and thread initialisation\<close>

text \<open>
  The part of an interpreter that the module reads: its result string.
  \<open>Tcl_GetCharLength(Tcl_GetObjResult(interp)) == 0\<close> holds when the string is empty.
\<close>

record Tcl_Interp =
  objResult :: string

text \<open>\<open>IocpSubSystem\<close>, the type of the global \<open>iocpModuleState\<close>.\<close>

record IocpSubSystem =
  completion_port :: "addr option"
  completion_thread :: "addr option"

text \<open>
  What the environment answers during one call, and the constants of the build:
  the handles \<open>CreateIoCompletionPort\<close> and \<open>CreateThread\<close> return (\<open>None\<close> on
  failure), the code of \<open>WSAStartup\<close>, the text of the system's last error, whether
  the module is built with \<open>USE_TCL_STUBS\<close> and whether \<open>Tcl_InitStubs\<close> succeeds,
  the package name and version, the value of \<open>IOCP_TSD_INIT\<close>, the identity of the
  current thread, the block \<open>ckalloc\<close> returns for a TSD, and what the other threads
  leave in the gate while this one waits.
\<close>

record environment =
  CreateIoCompletionPort_result :: "addr option"
  WSAStartup_result :: cint
  CreateThread_result :: "addr option"
  lastErrorMessage :: string
  USE_TCL_STUBS :: bool
  Tcl_InitStubs_ok :: bool
  PACKAGE_NAME :: string
  PACKAGE_VERSION :: string
  IOCP_TSD_INIT_result :: "addr option"
  Tcl_GetCurrentThread_result :: nat
  ckalloc_tsd :: IocpTsd
  other_threads :: "nat \<Rightarrow> cint"

text \<open>
  The memory of the process that these functions work on: the module state, the
  interpreters by address, the handles that are open, the number of \<open>WSAStartup\<close>
  calls not yet undone, the thread-specific slots, and the calls made so far.
\<close>

record world =
  iocpModuleState :: IocpSubSystem
  interps :: "addr \<Rightarrow> Tcl_Interp"
  handles :: "addr list"
  winsock_refs :: nat
  tsdSlots :: slots
  calls :: "call list"

definition called :: "call \<Rightarrow> world \<Rightarrow> world" where
  "called c w = w\<lparr>calls := calls w @ [c]\<rparr>"

definition CloseHandle :: "addr option \<Rightarrow> world \<Rightarrow> world" where
  "CloseHandle h w =
     called (Ev_CloseHandle h)
       (w\<lparr>handles := (case h of None \<Rightarrow> handles w | Some a \<Rightarrow> remove1 a (handles w))\<rparr>)"

definition WSACleanup :: "world \<Rightarrow> world" where
  "WSACleanup w = called Ev_WSACleanup (w\<lparr>winsock_refs := winsock_refs w - 1\<rparr>)"

definition Tcl_SetResult :: "addr \<Rightarrow> string \<Rightarrow> world \<Rightarrow> world" where
  "Tcl_SetResult interp s w =
     called (Ev_Tcl_SetResult interp s)
       (w\<lparr>interps := (interps w)(interp := (interps w interp)\<lparr>objResult := s\<rparr>)\<rparr>)"

text \<open>
  Modelled from the spec: \<open>Iocp_ReportLastError\<close> is defined in a file that is
  missing.  It reports the system's last error to the interpreter: the interpreter's
  result becomes the text of that error.
\<close>

definition Iocp_ReportLastError :: "environment \<Rightarrow> addr \<Rightarrow> world \<Rightarrow> world" where
  "Iocp_ReportLastError env interp w =
     called (Ev_Iocp_ReportLastError interp)
       (w\<lparr>interps := (interps w)(interp := (interps w interp)\<lparr>objResult := lastErrorMessage env\<rparr>)\<rparr>)"

definition set_completion_port :: "addr option \<Rightarrow> world \<Rightarrow> world" where
  "set_completion_port h w = w\<lparr>iocpModuleState := (iocpModuleState w)\<lparr>completion_port := h\<rparr>\<rparr>"

definition set_completion_thread :: "addr option \<Rightarrow> world \<Rightarrow> world" where
  "set_completion_thread h w = w\<lparr>iocpModuleState := (iocpModuleState w)\<lparr>completion_thread := h\<rparr>\<rparr>"

text \<open>A handle that the system returns is open from then on.\<close>

definition opened :: "addr option \<Rightarrow> world \<Rightarrow> world" where
  "opened h w = w\<lparr>handles := (case h of None \<Rightarrow> handles w | Some a \<Rightarrow> a # handles w)\<rparr>"

text \<open>\<open>IocpProcessInit(clientdata)\<close>; the client data is the interpreter.\<close>

definition IocpProcessInit :: "environment \<Rightarrow> addr \<Rightarrow> world \<Rightarrow> cint \<times> world" where
  "IocpProcessInit env clientdata w =
     (let interp = clientdata;
          w1 = set_completion_port (CreateIoCompletionPort_result env)
                 (opened (CreateIoCompletionPort_result env) (called Ev_CreateIoCompletionPort w))
      in if completion_port (iocpModuleState w1) = None
         then (TCL_ERROR, Iocp_ReportLastError env interp w1)
         else if WSAStartup_result env \<noteq> 0
         then (TCL_ERROR,
               Tcl_SetResult interp ''Could not load winsock.''
                 (set_completion_port None
                   (CloseHandle (completion_port (iocpModuleState w1)) (called Ev_WSAStartup w1))))
         else
           (let w2 = (called Ev_WSAStartup w1)\<lparr>winsock_refs := Suc (winsock_refs w1)\<rparr>;
                w3 = set_completion_thread (CreateThread_result env)
                       (opened (CreateThread_result env) (called Ev_CreateThread w2))
            in if completion_thread (iocpModuleState w3) = None
               then (TCL_ERROR,
                     WSACleanup
                       (set_completion_port None
                         (CloseHandle (completion_port (iocpModuleState w3))
                           (Iocp_ReportLastError env interp w3))))
               else (TCL_OK, called Ev_Tcl_CreateExitHandler w3)))"

text \<open>\<open>IocpThreadInit(interp)\<close>.\<close>

definition IocpThreadInit :: "environment \<Rightarrow> addr \<Rightarrow> world \<Rightarrow> fault + (cint \<times> world)" where
  "IocpThreadInit env interp w =
     (let tsdPtrPtr = IOCP_TSD_INIT_result env
      in if tsdPtrPtr = None
         then (let new = IocpTsdNew (ckalloc_tsd env) (Tcl_GetCurrentThread_result env)
               in case store_slot tsdPtrPtr (Some (fst new)) (tsdSlots w) of
                    Inl f \<Rightarrow> Inl f
                  | Inr sl \<Rightarrow>
                      Inr (TCL_OK,
                           called Ev_Tcl_CreateThreadExitHandler
                             (called Ev_Tcl_CreateEventSource
                               (w\<lparr>tsdSlots := sl, calls := calls w @ snd new\<rparr>))))
         else Inr (TCL_OK, w))"

text \<open>
  \<open>Iocp_Init(interp)\<close>, on the gate \<open>iocpProcessInitFlag\<close> and the memory: \<open>None\<close>
  when the call never returns, a fault, or the return code with the gate and the
  memory.  \<open>! x\<close> on a return code is \<open>x = 0\<close>.
\<close>

definition Iocp_Init ::
  "environment \<Rightarrow> addr \<Rightarrow> cint \<Rightarrow> world \<Rightarrow> (fault + (cint \<times> cint \<times> world)) option" where
  "Iocp_Init env interp iocpProcessInitFlag w =
     (if USE_TCL_STUBS env \<and> \<not> Tcl_InitStubs_ok env then Some (Inr (TCL_ERROR, iocpProcessInitFlag, w))
      else
        (case Iocp_DoOnce (other_threads env) (IocpProcessInit env) interp iocpProcessInitFlag w of
           None \<Rightarrow> None
         | Some r \<Rightarrow>
             if rcode r \<noteq> TCL_OK
             then Some (Inr (TCL_ERROR, gate r,
                    if objResult (interps (mem r) interp) = []
                    then Tcl_SetResult interp
                           (''Unable to do one-time initialization for '' @ PACKAGE_NAME env @ ''.'')
                           (mem r)
                    else mem r))
             else
               (case IocpThreadInit env interp (mem r) of
                  Inl f \<Rightarrow> Some (Inl f)
                | Inr (rc, w1) \<Rightarrow>
                    if rc = 0
                    then Some (Inr (TCL_ERROR, gate r,
                           if objResult (interps w1 interp) = []
                           then Tcl_SetResult interp
                                  (''Unable to do thread initialization for '' @ PACKAGE_NAME env @ ''.'')
                                  w1
                           else w1))
                    else Some (Inr (TCL_OK, gate r,
                           called (Ev_Tcl_PkgProvide interp (PACKAGE_NAME env) (PACKAGE_VERSION env))
                             (called (Ev_Tcl_CreateObjCommand interp ''iocp::socket'') w1))))))"

section \<open>Sample inputs\<close>

text \<open>
  An initialisation function that counts its invocations in the memory and returns
  the given code, and a gate that the other threads leave in progress forever.
\<close>

definition counting_init :: "cint \<Rightarrow> unit \<Rightarrow> nat \<Rightarrow> cint \<times> nat" where
  "counting_init rc cd n = (rc, Suc n)"

definition always_in_progress :: "nat \<Rightarrow> cint" where
  "always_in_progress k = IOCP_INITSTATE_IN_PROGRESS"

text \<open>A buffer of four bytes of which the first has been read.\<close>

definition sample_buffer :: IocpDataBuffer where
  "sample_buffer = \<lparr>dataPtr = Some [10, 20, 30, 40], capacity = 4, begin_off = 1, len = 3\<rparr>"

text \<open>
  A vtable with both hooks, a block of memory with arbitrary content, and the channel
  that \<open>IocpChannelNew\<close> makes of them.
\<close>

definition sample_vtbl :: IocpChannelVtbl where
  "sample_vtbl = \<lparr>initialize = Some 100, finalize = Some 101, allocationSize = 64\<rparr>"

definition raw_channel :: IocpChannel where
  "raw_channel =
     \<lparr>inputBuffers = \<lparr>headPtr = Some 1, tailPtr = Some 2\<rparr>,
      readyLink = \<lparr>next_link = Some 3, prev_link = Some 4\<rparr>,
      tsdPtr = Some 5, numRefs = 77, flags = 6,
      vtblPtr = \<lparr>initialize = None, finalize = None, allocationSize = 0\<rparr>\<rparr>"

definition new_channel :: IocpChannel where
  "new_channel = fst (IocpChannelNew raw_channel sample_vtbl)"

text \<open>A TSD with one reference and an empty queue.\<close>

definition sample_tsd :: IocpTsd where
  "sample_tsd = \<lparr>readyChannels = IocpListInit, threadId = 42, tsdRefs = 1\<rparr>"

text \<open>
  The memory of a process that has not used the module yet, the same with a result
  left in every interpreter, and an environment in which every call succeeds.
\<close>

definition no_interps :: "addr \<Rightarrow> Tcl_Interp" where
  "no_interps a = \<lparr>objResult = []\<rparr>"

definition busy_interps :: "addr \<Rightarrow> Tcl_Interp" where
  "busy_interps a = \<lparr>objResult = ''busy''\<rparr>"

definition empty_slots :: slots where
  "empty_slots p = None"

definition start_world :: world where
  "start_world =
     \<lparr>iocpModuleState = \<lparr>completion_port = None, completion_thread = None\<rparr>,
      interps = no_interps, handles = [], winsock_refs = 0, tsdSlots = empty_slots, calls = []\<rparr>"

definition busy_world :: world where
  "busy_world = start_world\<lparr>interps := busy_interps\<rparr>"

definition good_env :: environment where
  "good_env =
     \<lparr>CreateIoCompletionPort_result = Some 500, WSAStartup_result = 0,
      CreateThread_result = Some 501, lastErrorMessage = ''access denied'',
      USE_TCL_STUBS = True, Tcl_InitStubs_ok = True,
      PACKAGE_NAME = ''iocp'', PACKAGE_VERSION = ''0.1'',
      IOCP_TSD_INIT_result = Some 0, Tcl_GetCurrentThread_result = 42,
      ckalloc_tsd = \<lparr>readyChannels = \<lparr>headPtr = Some 8, tailPtr = Some 9\<rparr>,
                     threadId = 7, tsdRefs = 13\<rparr>,
      other_threads = always_in_progress\<rparr>"

section \<open>The one-time gate\<close>

text \<open>
  C1.  From the state "done" \<open>Iocp_DoOnce\<close> returns \<open>TCL_OK\<close>, and from the state
  "error" \<open>TCL_ERROR\<close>, in both cases without calling \<open>once_fn\<close> and without touching
  the gate or the memory.  From the state "not started" it sets the gate to "in
  progress", calls \<open>once_fn\<close> once, and then sets the gate to "done" and returns
  \<open>TCL_OK\<close> if \<open>once_fn\<close> returned \<open>TCL_OK\<close>, and sets it to "error" and returns
  \<open>TCL_ERROR\<close> otherwise; the memory is what that one call of \<open>once_fn\<close> left.
\<close>

theorem Iocp_DoOnce_contract:
  "(state = IOCP_INITSTATE_DONE \<longrightarrow>
      Iocp_DoOnce others once_fn cd state w =
        Some \<lparr>rcode = TCL_OK, events = [], gate = IOCP_INITSTATE_DONE, mem = w\<rparr>) \<and>
   (state = IOCP_INITSTATE_ERROR \<longrightarrow>
      Iocp_DoOnce others once_fn cd state w =
        Some \<lparr>rcode = TCL_ERROR, events = [], gate = IOCP_INITSTATE_ERROR, mem = w\<rparr>) \<and>
   (state = IOCP_INITSTATE_INIT \<and> fst (once_fn cd w) = TCL_OK \<longrightarrow>
      Iocp_DoOnce others once_fn cd state w =
        Some \<lparr>rcode = TCL_OK,
              events = [Gate_set IOCP_INITSTATE_IN_PROGRESS, Once_call, Gate_set IOCP_INITSTATE_DONE],
              gate = IOCP_INITSTATE_DONE, mem = snd (once_fn cd w)\<rparr>) \<and>
   (state = IOCP_INITSTATE_INIT \<and> fst (once_fn cd w) \<noteq> TCL_OK \<longrightarrow>
      Iocp_DoOnce others once_fn cd state w =
        Some \<lparr>rcode = TCL_ERROR,
              events = [Gate_set IOCP_INITSTATE_IN_PROGRESS, Once_call, Gate_set IOCP_INITSTATE_ERROR],
              gate = IOCP_INITSTATE_ERROR, mem = snd (once_fn cd w)\<rparr>)"
  by (simp add: Iocp_DoOnce_def InterlockedCompareExchange_def Let_def)

text \<open>
  The four cases on a memory that counts the calls of the initialisation function:
  no call from "done" and "error", one call from "not started".
\<close>

theorem Iocp_DoOnce_contract_witness:
  "Iocp_DoOnce always_in_progress (counting_init TCL_OK) () IOCP_INITSTATE_DONE 0 =
     Some \<lparr>rcode = TCL_OK, events = [], gate = IOCP_INITSTATE_DONE, mem = 0\<rparr> \<and>
   Iocp_DoOnce always_in_progress (counting_init TCL_OK) () IOCP_INITSTATE_ERROR 0 =
     Some \<lparr>rcode = TCL_ERROR, events = [], gate = IOCP_INITSTATE_ERROR, mem = 0\<rparr> \<and>
   Iocp_DoOnce always_in_progress (counting_init TCL_OK) () IOCP_INITSTATE_INIT 0 =
     Some \<lparr>rcode = TCL_OK,
           events = [Gate_set IOCP_INITSTATE_IN_PROGRESS, Once_call, Gate_set IOCP_INITSTATE_DONE],
           gate = IOCP_INITSTATE_DONE, mem = 1\<rparr> \<and>
   Iocp_DoOnce always_in_progress (counting_init 7) () IOCP_INITSTATE_INIT 0 =
     Some \<lparr>rcode = TCL_ERROR,
           events = [Gate_set IOCP_INITSTATE_IN_PROGRESS, Once_call, Gate_set IOCP_INITSTATE_ERROR],
           gate = IOCP_INITSTATE_ERROR, mem = 1\<rparr>"
  using Iocp_DoOnce_contract [of IOCP_INITSTATE_DONE always_in_progress "counting_init TCL_OK" "()" 0]
    Iocp_DoOnce_contract [of IOCP_INITSTATE_ERROR always_in_progress "counting_init TCL_OK" "()" 0]
    Iocp_DoOnce_contract [of IOCP_INITSTATE_INIT always_in_progress "counting_init TCL_OK" "()" 0]
    Iocp_DoOnce_contract [of IOCP_INITSTATE_INIT always_in_progress "counting_init 7" "()" 0]
  by (simp add: counting_init_def)

section \<open>Channel reference counting\<close>

text \<open>
  A drop that leaves references makes no call at all, so the lock taken by the caller
  stays held; the drop that takes the last reference calls the finalizer if there is
  one, then unlocks, deletes the lock and frees, whatever the links of the channel.
\<close>

lemma IocpChannelDrop_not_last:
  "0 < sint (numRefs c - 1) \<Longrightarrow> IocpChannelDrop c = (c\<lparr>numRefs := numRefs c - 1\<rparr>, [])"
  by (simp add: IocpChannelDrop_def Let_def word_sle_eq)

lemma IocpChannelDrop_last:
  "sint (numRefs c - 1) \<le> 0 \<Longrightarrow>
   IocpChannelDrop c =
     (c\<lparr>numRefs := numRefs c - 1\<rparr>,
      (case finalize (vtblPtr c) of None \<Rightarrow> [] | Some f \<Rightarrow> [Ev_hook f]) @
      [Ev_IocpChannelUnlock, Ev_IocpLockDelete, Ev_ckfree])"
  by (simp add: IocpChannelDrop_def Let_def word_sle_eq)

text \<open>
  C2.  A channel made by \<open>IocpChannelNew\<close> has one reference.  With a second
  reference taken, the first of two drops brings the count to 1 and makes no call:
  it does not call the finalizer and does not free, but it does not unlock the
  channel either, against the function's own description ("Unlocked and potentially
  freed on return").  The second drop calls the finalizer, unlocks, deletes the lock
  and frees, in this order.
\<close>

theorem IocpChannelDrop_keeps_lock:
  "numRefs new_channel = 1 \<and>
   IocpChannelDrops 2 (new_channel\<lparr>numRefs := 2\<rparr>) =
     [(new_channel\<lparr>numRefs := 1\<rparr>, []),
      (new_channel\<lparr>numRefs := 0\<rparr>,
       [Ev_hook 101, Ev_IocpChannelUnlock, Ev_IocpLockDelete, Ev_ckfree])]"
  by (simp add: new_channel_def IocpChannelNew_def sample_vtbl_def IocpChannelDrop_def Let_def
      numeral_2_eq_2 word_sle_eq)

text \<open>
  C3.  A channel with one reference that is still linked to a TSD through its owner
  pointer: the drop finalizes, unlocks and frees it as it would an unlinked one.
  There is no invariant check and no panic; the assertions are comments marked "TBD".
\<close>

theorem IocpChannelDrop_frees_linked:
  "tsdPtr (new_channel\<lparr>tsdPtr := Some 7\<rparr>) = Some 7 \<and>
   IocpChannelDrop (new_channel\<lparr>tsdPtr := Some 7\<rparr>) =
     (new_channel\<lparr>tsdPtr := Some 7, numRefs := 0\<rparr>,
      [Ev_hook 101, Ev_IocpChannelUnlock, Ev_IocpLockDelete, Ev_ckfree])"
  by (simp add: new_channel_def IocpChannelNew_def sample_vtbl_def IocpChannelDrop_def Let_def
      word_sle_eq)

section \<open>Data buffer: arithmetic without overflow\<close>

lemma sint_plus_exact:
  fixes a b :: cint
  assumes "- (2 ^ 31) \<le> sint a + sint b" "sint a + sint b < 2 ^ 31"
  shows "sint (a + b) = sint a + sint b"
  using assms by (simp add: sint_word_ariths signed_take_bit_int_eq_self)

lemma sint_minus_exact:
  fixes a b :: cint
  assumes "- (2 ^ 31) \<le> sint a - sint b" "sint a - sint b < 2 ^ 31"
  shows "sint (a - b) = sint a - sint b"
  using assms by (simp add: sint_word_ariths signed_take_bit_int_eq_self)

lemma sint_cint_upper: "sint (a :: cint) < 2 ^ 31"
  using sint_lt [of a] by simp

lemma uint_of_nonneg: "0 \<le> sint (a :: cint) \<Longrightarrow> uint a = sint a"
proof -
  assume h: "0 \<le> sint a"
  have "sint a < 2 ^ 32" using sint_lt [of a] by simp
  with h have "take_bit 32 (sint a) = sint a" by (simp add: take_bit_int_eq_self)
  moreover have "uint a = take_bit 32 (sint a)" using uint_sint [of a] by simp
  ultimately show ?thesis by simp
qed

lemma sint_numCopied: "sint (numCopied d l) = min (sint (len d)) (sint l)"
  by (simp add: numCopied_def word_sless_alt min_def)

lemma Move_absent:
  "dataPtr d = None \<Longrightarrow> IocpDataBufferMove d l = Inr (numCopied d l, [], moved d l)"
  by (simp add: IocpDataBufferMove_def numCopied_def moved_def Let_def)

lemma Move_present:
  assumes "dataPtr d = Some blk" "0 \<le> sint (begin_off d)" "0 \<le> sint (numCopied d l)"
    "sint (begin_off d) + sint (numCopied d l) \<le> int (length blk)"
  shows "IocpDataBufferMove d l =
     Inr (numCopied d l, take (nat (sint (numCopied d l))) (drop (nat (sint (begin_off d))) blk),
          moved d l)"
  using assms
  by (simp add: IocpDataBufferMove_def numCopied_def [symmetric] moved_def Let_def memcpy_def
      word_sle_eq)

lemma inv_wf_facts:
  assumes "DataBuffer_inv d" "DataBuffer_wf d" "0 <=s l"
  shows "0 \<le> sint (begin_off d)" "0 \<le> sint (len d)" "0 \<le> sint (numCopied d l)"
    "sint (numCopied d l) \<le> sint (len d)"
    "sint (begin_off d) + sint (len d) \<le> sint (capacity d)"
    "0 \<le> sint (capacity d)"
  using assms by (auto simp: DataBuffer_inv_def DataBuffer_wf_def word_sle_eq sint_numCopied)

lemma moved_sint:
  assumes "DataBuffer_inv d" "DataBuffer_wf d" "0 <=s l"
  shows "sint (begin_off (moved d l)) = sint (begin_off d) + sint (numCopied d l)"
    and "sint (len (moved d l)) = sint (len d) - sint (numCopied d l)"
proof -
  note f = inv_wf_facts [OF assms]
  have u: "sint (capacity d) < 2 ^ 31" "sint (len d) < 2 ^ 31" by (rule sint_cint_upper)+
  have "sint (begin_off d + numCopied d l) = sint (begin_off d) + sint (numCopied d l)"
    using f u by (intro sint_plus_exact) linarith+
  then show "sint (begin_off (moved d l)) = sint (begin_off d) + sint (numCopied d l)"
    by (simp add: moved_def)
  have "sint (len d - numCopied d l) = sint (len d) - sint (numCopied d l)"
    using f u by (intro sint_minus_exact) linarith+
  then show "sint (len (moved d l)) = sint (len d) - sint (numCopied d l)"
    by (simp add: moved_def)
qed

lemma moved_keeps:
  assumes "DataBuffer_inv d" "DataBuffer_wf d" "0 <=s l"
  shows "DataBuffer_inv (moved d l)" "DataBuffer_wf (moved d l)"
proof -
  note f = inv_wf_facts [OF assms]
  note s = moved_sint [OF assms]
  have k: "dataPtr (moved d l) = dataPtr d" "capacity (moved d l) = capacity d"
    by (simp_all add: moved_def)
  show "DataBuffer_inv (moved d l)"
    using assms(1) f s by (simp add: DataBuffer_inv_def k)
  show "DataBuffer_wf (moved d l)"
    using assms(2) f s by (simp add: DataBuffer_wf_def k word_sle_eq split: option.splits)
qed

lemma block_size:
  assumes "DataBuffer_wf d" "0 \<le> sint (capacity d)" "dataPtr d = Some blk"
  shows "int (length blk) = sint (capacity d)"
proof -
  have "length blk = unat (capacity d)"
    using assms(1,3) by (simp add: DataBuffer_wf_def)
  then show ?thesis using assms(2) by (simp add: uint_of_nonneg)
qed

lemma Move_defined:
  assumes "DataBuffer_inv d" "DataBuffer_wf d" "0 <=s l"
  shows "IocpDataBufferMove d l =
     Inr (numCopied d l,
          (case dataPtr d of None \<Rightarrow> []
           | Some blk \<Rightarrow> take (nat (sint (numCopied d l))) (drop (nat (sint (begin_off d))) blk)),
          moved d l)"
proof (cases "dataPtr d")
  case None
  then show ?thesis by (simp add: Move_absent)
next
  case (Some blk)
  note f = inv_wf_facts [OF assms]
  have "sint (begin_off d) + sint (numCopied d l) \<le> int (length blk)"
    using f block_size [OF assms(2) f(6) Some] by linarith
  then show ?thesis
    using Some f by (simp add: Move_present)
qed

lemma copied_length:
  assumes "DataBuffer_inv d" "DataBuffer_wf d" "0 <=s l" "dataPtr d = Some blk"
  shows "length (take (nat (sint (numCopied d l))) (drop (nat (sint (begin_off d))) blk)) =
     nat (sint (numCopied d l))"
proof -
  note f = inv_wf_facts [OF assms(1-3)]
  show ?thesis using f block_size [OF assms(2) f(6) assms(4)] by simp
qed

section \<open>Data buffer: moving bytes out\<close>

text \<open>
  C4.  For a buffer without storage and any requested length, and for a buffer that
  satisfies its invariant and is well formed and a requested length that is not
  negative, \<open>IocpDataBufferMove\<close> returns the minimum of the buffer's length and the
  requested length, copies exactly that many bytes from offset \<open>begin\<close> of the
  storage when there is storage and nothing when there is none, adds the count to
  \<open>begin\<close> and subtracts it from the length; for the well-formed buffer neither
  operation wraps around.
\<close>

theorem IocpDataBufferMove_contract:
  assumes "dataPtr d = None \<or> (DataBuffer_inv d \<and> DataBuffer_wf d \<and> 0 <=s max_len)"
  shows "\<exists>n out d'.
     IocpDataBufferMove d max_len = Inr (n, out, d') \<and>
     sint n = min (sint (len d)) (sint max_len) \<and>
     (case dataPtr d of
        None \<Rightarrow> out = []
      | Some blk \<Rightarrow> out = take (nat (sint n)) (drop (nat (sint (begin_off d))) blk) \<and>
                    length out = nat (sint n)) \<and>
     d' = d\<lparr>begin_off := begin_off d + n, len := len d - n\<rparr> \<and>
     (DataBuffer_inv d \<and> DataBuffer_wf d \<and> 0 <=s max_len \<longrightarrow>
        sint (begin_off d') = sint (begin_off d) + sint n \<and>
        sint (len d') = sint (len d) - sint n)"
proof (cases "dataPtr d")
  case None
  show ?thesis
    using None moved_sint [of d max_len]
    by (simp add: Move_absent sint_numCopied) (simp add: moved_def)
next
  case (Some blk)
  with assms have h: "DataBuffer_inv d" "DataBuffer_wf d" "0 <=s max_len" by simp_all
  show ?thesis
    using Some h moved_sint [OF h] copied_length [OF h Some]
    by (simp add: Move_defined sint_numCopied) (simp add: moved_def)
qed

text \<open>
  Two of the three unread bytes of the sample buffer are asked for; and -3 bytes are
  asked of a buffer without storage.
\<close>

theorem IocpDataBufferMove_contract_witness:
  "DataBuffer_inv sample_buffer \<and> DataBuffer_wf sample_buffer \<and> 0 <=s (2 :: cint) \<and>
   IocpDataBufferMove sample_buffer 2 =
     Inr (2, [20, 30], \<lparr>dataPtr = Some [10, 20, 30, 40], capacity = 4, begin_off = 3, len = 1\<rparr>) \<and>
   dataPtr (snd (IocpDataBufferInit ckalloc_zeroed 0)) = None \<and>
   IocpDataBufferMove (snd (IocpDataBufferInit ckalloc_zeroed 0)) (- 3) =
     Inr (- 3, [], \<lparr>dataPtr = None, capacity = 0, begin_off = - 3, len = 3\<rparr>)"
  using IocpDataBufferMove_contract [of sample_buffer 2]
    IocpDataBufferMove_contract [of "snd (IocpDataBufferInit ckalloc_zeroed 0)" "- 3"]
  by (simp add: sample_buffer_def DataBuffer_inv_def DataBuffer_wf_def IocpDataBufferMove_def
      memcpy_def Let_def IocpDataBufferInit_def word_sle_eq word_sless_alt)

text \<open>
  With storage present and a negative requested length the count is negative, and
  \<open>memcpy\<close> is asked for more bytes than the block has: the call has no defined
  result, although the buffer is a proper one.
\<close>

theorem IocpDataBufferMove_negative_counterexample:
  "DataBuffer_inv sample_buffer \<and> DataBuffer_wf sample_buffer \<and>
   IocpDataBufferMove sample_buffer (- 1) = Inl MemFault"
  by (simp add: sample_buffer_def DataBuffer_inv_def DataBuffer_wf_def IocpDataBufferMove_def
      memcpy_def Let_def word_sle_eq word_sless_alt)

section \<open>Data buffer: sequences of moves\<close>

lemma Moves_props:
  assumes "DataBuffer_inv d" "DataBuffer_wf d" "\<forall>l\<in>set ls. 0 <=s l"
  shows "\<exists>steps.
     IocpDataBufferMoves d ls = Inr steps \<and> length steps = length ls \<and>
     (\<forall>s\<in>set steps. DataBuffer_inv (snd (snd s)) \<and> 0 \<le> sint (len (snd (snd s)))) \<and>
     sorted_wrt (\<lambda>a b. b \<le> a) (map sint (len d # map (\<lambda>s. len (snd (snd s))) steps)) \<and>
     sum_list (map (\<lambda>s. sint (fst s)) steps) =
       sint (len d) - sint (len (last (d # map (\<lambda>s. snd (snd s)) steps)))"
  using assms
proof (induction ls arbitrary: d)
  case Nil
  then show ?case by simp
next
  case (Cons l ls)
  then have l: "0 <=s l" and ls: "\<forall>l\<in>set ls. 0 <=s l" by simp_all
  note f = inv_wf_facts [OF Cons.prems(1,2) l]
  note s = moved_sint [OF Cons.prems(1,2) l]
  note k = moved_keeps [OF Cons.prems(1,2) l]
  from Cons.IH [OF k ls] obtain rest where r:
    "IocpDataBufferMoves (moved d l) ls = Inr rest" "length rest = length ls"
    "\<forall>s\<in>set rest. DataBuffer_inv (snd (snd s)) \<and> 0 \<le> sint (len (snd (snd s)))"
    "sorted_wrt (\<lambda>a b. b \<le> a) (map sint (len (moved d l) # map (\<lambda>s. len (snd (snd s))) rest))"
    "sum_list (map (\<lambda>s. sint (fst s)) rest) =
       sint (len (moved d l)) - sint (len (last (moved d l # map (\<lambda>s. snd (snd s)) rest)))"
    by blast
  let ?out = "case dataPtr d of None \<Rightarrow> []
           | Some blk \<Rightarrow> take (nat (sint (numCopied d l))) (drop (nat (sint (begin_off d))) blk)"
  let ?steps = "(numCopied d l, ?out, moved d l) # rest"
  have m: "IocpDataBufferMoves d (l # ls) = Inr ?steps"
    by (simp add: Move_defined [OF Cons.prems(1,2) l] r(1))
  have le: "sint (len (moved d l)) \<le> sint (len d)" using s f by linarith
  have nn: "0 \<le> sint (len (moved d l))" using s f by linarith
  have srt: "sorted_wrt (\<lambda>a b. b \<le> a) (map sint (len d # map (\<lambda>s. len (snd (snd s))) ?steps))"
    using r(4) le by (auto intro: order_trans)
  have sm: "sum_list (map (\<lambda>s. sint (fst s)) ?steps) =
       sint (len d) - sint (len (last (d # map (\<lambda>s. snd (snd s)) ?steps)))"
    using r(5) s by simp
  show ?case
    unfolding m using r(2,3) k(1) nn srt sm by (intro exI [of _ ?steps]) simp
qed

text \<open>
  C5.  \<open>IocpDataBufferInit\<close> with a capacity that is not negative, on an allocator
  whose blocks have the size asked for, leaves a buffer that satisfies the invariant
  (\<open>begin + len \<le> capacity\<close>, and no storage when the capacity is 0) and is well
  formed.  From any such buffer, every sequence of moves whose requested lengths are
  not negative runs without fault; the invariant holds after every move, the length
  never grows and is never negative, and the counts returned sum to at most the
  length at the start.
\<close>

theorem DataBuffer_sequence:
  "(0 <=s cap \<and> (\<forall>n blk. attemptckalloc n = Some blk \<longrightarrow> length blk = n) \<longrightarrow>
      DataBuffer_inv (snd (IocpDataBufferInit attemptckalloc cap)) \<and>
      DataBuffer_wf (snd (IocpDataBufferInit attemptckalloc cap))) \<and>
   (DataBuffer_inv d \<and> DataBuffer_wf d \<and> (\<forall>l\<in>set ls. 0 <=s l) \<longrightarrow>
      (\<exists>steps.
         IocpDataBufferMoves d ls = Inr steps \<and> length steps = length ls \<and>
         (\<forall>s\<in>set steps. DataBuffer_inv (snd (snd s)) \<and> 0 \<le> sint (len (snd (snd s)))) \<and>
         sorted_wrt (\<lambda>a b. b \<le> a) (map sint (len d # map (\<lambda>s. len (snd (snd s))) steps)) \<and>
         sum_list (map (\<lambda>s. sint (fst s)) steps) \<le> sint (len d)))"
proof (intro conjI impI)
  assume h: "0 <=s cap \<and> (\<forall>n blk. attemptckalloc n = Some blk \<longrightarrow> length blk = n)"
  show "DataBuffer_inv (snd (IocpDataBufferInit attemptckalloc cap))"
    using h by (auto simp: IocpDataBufferInit_def DataBuffer_inv_def Let_def word_sle_eq)
  show "DataBuffer_wf (snd (IocpDataBufferInit attemptckalloc cap))"
    using h by (auto simp: IocpDataBufferInit_def DataBuffer_wf_def Let_def split: option.splits)
next
  assume h: "DataBuffer_inv d \<and> DataBuffer_wf d \<and> (\<forall>l\<in>set ls. 0 <=s l)"
  then obtain steps where s:
    "IocpDataBufferMoves d ls = Inr steps" "length steps = length ls"
    "\<forall>s\<in>set steps. DataBuffer_inv (snd (snd s)) \<and> 0 \<le> sint (len (snd (snd s)))"
    "sorted_wrt (\<lambda>a b. b \<le> a) (map sint (len d # map (\<lambda>s. len (snd (snd s))) steps))"
    "sum_list (map (\<lambda>s. sint (fst s)) steps) =
       sint (len d) - sint (len (last (d # map (\<lambda>s. snd (snd s)) steps)))"
    using Moves_props [of d ls] by blast
  have "0 \<le> sint (len (last (d # map (\<lambda>s. snd (snd s)) steps)))"
  proof (cases steps rule: rev_cases)
    case Nil
    then show ?thesis using h by (simp add: DataBuffer_wf_def word_sle_eq)
  next
    case (snoc ys y)
    then show ?thesis using s(3) by simp
  qed
  with s(5) have "sum_list (map (\<lambda>s. sint (fst s)) steps) \<le> sint (len d)" by linarith
  with s(1-4) show "\<exists>steps.
         IocpDataBufferMoves d ls = Inr steps \<and> length steps = length ls \<and>
         (\<forall>s\<in>set steps. DataBuffer_inv (snd (snd s)) \<and> 0 \<le> sint (len (snd (snd s)))) \<and>
         sorted_wrt (\<lambda>a b. b \<le> a) (map sint (len d # map (\<lambda>s. len (snd (snd s))) steps)) \<and>
         sum_list (map (\<lambda>s. sint (fst s)) steps) \<le> sint (len d)"
    by blast
qed

text \<open>
  An initialisation with capacity 4, and three moves on the sample buffer: of two
  bytes, of none, and of five where one is left.
\<close>

theorem DataBuffer_sequence_witness:
  "0 <=s (4 :: cint) \<and>
   DataBuffer_inv (snd (IocpDataBufferInit ckalloc_zeroed 4)) \<and>
   DataBuffer_wf (snd (IocpDataBufferInit ckalloc_zeroed 4)) \<and>
   DataBuffer_inv sample_buffer \<and> DataBuffer_wf sample_buffer \<and>
   0 <=s (2 :: cint) \<and> 0 <=s (0 :: cint) \<and> 0 <=s (5 :: cint) \<and>
   IocpDataBufferMoves sample_buffer [2, 0, 5] =
     Inr [(2, [20, 30], \<lparr>dataPtr = Some [10, 20, 30, 40], capacity = 4, begin_off = 3, len = 1\<rparr>),
          (0, [], \<lparr>dataPtr = Some [10, 20, 30, 40], capacity = 4, begin_off = 3, len = 1\<rparr>),
          (1, [40], \<lparr>dataPtr = Some [10, 20, 30, 40], capacity = 4, begin_off = 4, len = 0\<rparr>)]"
  using DataBuffer_sequence [of 4 ckalloc_zeroed sample_buffer "[2, 0, 5]"]
  by (simp add: sample_buffer_def DataBuffer_inv_def DataBuffer_wf_def IocpDataBufferMove_def
      memcpy_def Let_def ckalloc_zeroed_def IocpDataBufferInit_def word_sle_eq word_sless_alt)

text \<open>
  After an initialisation with capacity 0 the length is 0; a move with the requested
  length -3 returns -3 and leaves the length 3 and \<open>begin\<close> at -3.  And an
  initialisation with capacity -5 whose allocation succeeds leaves
  \<open>begin + len = 0\<close> above the capacity.
\<close>

theorem DataBuffer_sequence_counterexample:
  "len (snd (IocpDataBufferInit ckalloc_zeroed 0)) = 0 \<and>
   IocpDataBufferMoves (snd (IocpDataBufferInit ckalloc_zeroed 0)) [- 3] =
     Inr [(- 3, [], \<lparr>dataPtr = None, capacity = 0, begin_off = - 3, len = 3\<rparr>)] \<and>
   \<not> DataBuffer_inv (snd (IocpDataBufferInit ckalloc_zeroed (- 5)))"
  by (simp add: IocpDataBufferInit_def IocpDataBufferMove_def ckalloc_zeroed_def
      DataBuffer_inv_def Let_def word_sle_eq word_sless_alt)

section \<open>Waking a blocked thread\<close>

text \<open>
  C6.  If the "blocked for I/O" flag of the channel is set,
  \<open>IocpChannelWakeAfterCompletion\<close> signals the condition variable once and clears
  that flag: the flag is clear afterwards, the other bits of \<open>flags\<close> and the other
  fields of the channel are as before.  If the flag is clear, the channel is left as
  it is and the condition variable is not signalled.
\<close>

theorem IocpChannelWakeAfterCompletion_flag:
  "(flags c AND blocked_flag \<noteq> 0 \<longrightarrow>
      snd (IocpChannelWakeAfterCompletion blocked_flag c) = [Ev_WakeConditionVariable] \<and>
      fst (IocpChannelWakeAfterCompletion blocked_flag c) =
        c\<lparr>flags := flags (fst (IocpChannelWakeAfterCompletion blocked_flag c))\<rparr> \<and>
      flags (fst (IocpChannelWakeAfterCompletion blocked_flag c)) AND blocked_flag = 0 \<and>
      flags (fst (IocpChannelWakeAfterCompletion blocked_flag c)) AND NOT blocked_flag =
        flags c AND NOT blocked_flag) \<and>
   (flags c AND blocked_flag = 0 \<longrightarrow>
      IocpChannelWakeAfterCompletion blocked_flag c = (c, []))"
  by (simp add: IocpChannelWakeAfterCompletion_def word_bw_assocs)

text \<open>Flags 6 (bits 2 and 4): with the flag 4 it is set, with the flag 8 it is clear.\<close>

theorem IocpChannelWakeAfterCompletion_flag_witness:
  "flags raw_channel AND 4 \<noteq> 0 \<and>
   IocpChannelWakeAfterCompletion 4 raw_channel =
     (raw_channel\<lparr>flags := 2\<rparr>, [Ev_WakeConditionVariable]) \<and>
   flags raw_channel AND 8 = 0 \<and>
   IocpChannelWakeAfterCompletion 8 raw_channel = (raw_channel, [])"
  using IocpChannelWakeAfterCompletion_flag [of raw_channel 4]
    IocpChannelWakeAfterCompletion_flag [of raw_channel 8]
  by (simp add: raw_channel_def IocpChannelWakeAfterCompletion_def)

section \<open>Dropping a TSD\<close>

text \<open>
  C7.  \<open>IocpTsdDrop\<close> takes one reference off.  If the count is then 0 or less and
  the queue of ready channels is not empty, it panics and frees nothing; if the
  count is 0 or less and the queue is empty, it unlocks the TSD and then frees it;
  if the count is still positive, it only unlocks, and the TSD is as before but for
  the count.
\<close>

theorem IocpTsdDrop_contract:
  "(sint (tsdRefs t - 1) \<le> 0 \<and> headPtr (readyChannels t) \<noteq> None \<longrightarrow>
      IocpTsdDrop t = Inl (Panic ''Attempt to free IocpTsd with channels attached.'')) \<and>
   (sint (tsdRefs t - 1) \<le> 0 \<and> headPtr (readyChannels t) = None \<longrightarrow>
      IocpTsdDrop t = Inr (t\<lparr>tsdRefs := tsdRefs t - 1\<rparr>, [Ev_IocpTsdUnlock, Ev_ckfree])) \<and>
   (0 < sint (tsdRefs t - 1) \<longrightarrow>
      IocpTsdDrop t = Inr (t\<lparr>tsdRefs := tsdRefs t - 1\<rparr>, [Ev_IocpTsdUnlock]))"
  by (simp add: IocpTsdDrop_def Let_def word_sle_eq)

text \<open>
  The last reference with a channel queued, the last reference with an empty queue,
  and one of two references.
\<close>

theorem IocpTsdDrop_contract_witness:
  "IocpTsdDrop (sample_tsd\<lparr>readyChannels := \<lparr>headPtr = Some 9, tailPtr = Some 9\<rparr>\<rparr>) =
     Inl (Panic ''Attempt to free IocpTsd with channels attached.'') \<and>
   IocpTsdDrop sample_tsd = Inr (sample_tsd\<lparr>tsdRefs := 0\<rparr>, [Ev_IocpTsdUnlock, Ev_ckfree]) \<and>
   IocpTsdDrop (sample_tsd\<lparr>tsdRefs := 2\<rparr>) =
     Inr (sample_tsd\<lparr>tsdRefs := 1\<rparr>, [Ev_IocpTsdUnlock])"
  using IocpTsdDrop_contract [of "sample_tsd\<lparr>readyChannels := \<lparr>headPtr = Some 9, tailPtr = Some 9\<rparr>\<rparr>"]
    IocpTsdDrop_contract [of sample_tsd]
    IocpTsdDrop_contract [of "sample_tsd\<lparr>tsdRefs := 2\<rparr>"]
  by (simp add: sample_tsd_def IocpListInit_def)

section \<open>Thread initialisation\<close>

text \<open>
  The test of \<open>IocpThreadInit\<close> is on the address of the slot, not on its content:
  with an address the function does nothing, and without one it stores through
  \<open>NULL\<close>.  Whenever it returns, it returns \<open>TCL_OK\<close> and has changed nothing.
\<close>

lemma IocpThreadInit_eq:
  "IocpThreadInit env interp w =
     (if IOCP_TSD_INIT_result env = None then Inl NullDeref else Inr (TCL_OK, w))"
  by (simp add: IocpThreadInit_def store_slot_def Let_def)

text \<open>
  C8.  The first call in a thread: the thread has its slot (at address 0) and the
  slot holds no TSD.  \<open>IocpThreadInit\<close> returns \<open>TCL_OK\<close> and leaves the memory as
  it was: no TSD is created or stored in the slot, and neither the event source nor
  the thread exit handler is registered.  Were the slot's address \<open>NULL\<close>, the
  branch that creates the TSD would store through it.
\<close>

theorem IocpThreadInit_creates_nothing:
  "IOCP_TSD_INIT_result good_env = Some 0 \<and> tsdSlots start_world 0 = None \<and>
   IocpThreadInit good_env 1 start_world = Inr (TCL_OK, start_world) \<and>
   IocpThreadInit (good_env\<lparr>IOCP_TSD_INIT_result := None\<rparr>) 1 start_world = Inl NullDeref"
  by (simp add: IocpThreadInit_def store_slot_def good_env_def start_world_def empty_slots_def)

section \<open>Process initialisation\<close>

lemma IocpProcessInit_calls:
  "\<exists>cs. calls (snd (IocpProcessInit env interp w)) = calls w @ cs \<and>
     (\<forall>a s. Ev_Tcl_CreateObjCommand a s \<notin> set cs)"
  by (simp add: IocpProcessInit_def Let_def called_def CloseHandle_def WSACleanup_def
      Tcl_SetResult_def Iocp_ReportLastError_def set_completion_port_def
      set_completion_thread_def opened_def)

text \<open>
  C9.  Whenever \<open>IocpProcessInit\<close> returns \<open>TCL_ERROR\<close>, the completion port
  field of the module state is \<open>NULL\<close>; no thread is recorded if none was at entry
  (the module state is a global, all zero when the one call of the function is made),
  and in any case the thread field is \<open>NULL\<close> or untouched; the open handles and the
  count of Winsock start-ups are what they were before the call, so the port handle
  has been closed and Winsock cleaned up if it had been started; and the error has
  been reported to the interpreter, by a call of \<open>Iocp_ReportLastError\<close> or by
  setting the result "Could not load winsock.".
\<close>

theorem IocpProcessInit_unwinds:
  assumes "fst (IocpProcessInit env interp w) = TCL_ERROR"
  shows "completion_port (iocpModuleState (snd (IocpProcessInit env interp w))) = None \<and>
     (completion_thread (iocpModuleState w) = None \<longrightarrow>
        completion_thread (iocpModuleState (snd (IocpProcessInit env interp w))) = None) \<and>
     (completion_thread (iocpModuleState (snd (IocpProcessInit env interp w))) = None \<or>
      completion_thread (iocpModuleState (snd (IocpProcessInit env interp w))) =
        completion_thread (iocpModuleState w)) \<and>
     handles (snd (IocpProcessInit env interp w)) = handles w \<and>
     winsock_refs (snd (IocpProcessInit env interp w)) = winsock_refs w \<and>
     (\<exists>cs. calls (snd (IocpProcessInit env interp w)) = calls w @ cs \<and>
        (Ev_Iocp_ReportLastError interp \<in> set cs \<or>
         Ev_Tcl_SetResult interp ''Could not load winsock.'' \<in> set cs))"
  using assms
  by (simp add: IocpProcessInit_def Let_def called_def CloseHandle_def WSACleanup_def
      Tcl_SetResult_def Iocp_ReportLastError_def set_completion_port_def
      set_completion_thread_def opened_def split: if_splits option.splits)

text \<open>
  The thread cannot be created: the port, open by then, is closed again and Winsock,
  started by then, is cleaned up.
\<close>

theorem IocpProcessInit_unwinds_witness:
  "fst (IocpProcessInit (good_env\<lparr>CreateThread_result := None\<rparr>) 1 start_world) = TCL_ERROR \<and>
   completion_thread (iocpModuleState start_world) = None \<and>
   iocpModuleState (snd (IocpProcessInit (good_env\<lparr>CreateThread_result := None\<rparr>) 1 start_world)) =
     \<lparr>completion_port = None, completion_thread = None\<rparr> \<and>
   handles (snd (IocpProcessInit (good_env\<lparr>CreateThread_result := None\<rparr>) 1 start_world)) = [] \<and>
   winsock_refs (snd (IocpProcessInit (good_env\<lparr>CreateThread_result := None\<rparr>) 1 start_world)) = 0 \<and>
   calls (snd (IocpProcessInit (good_env\<lparr>CreateThread_result := None\<rparr>) 1 start_world)) =
     [Ev_CreateIoCompletionPort, Ev_WSAStartup, Ev_CreateThread, Ev_Iocp_ReportLastError 1,
      Ev_CloseHandle (Some 500), Ev_WSACleanup]"
proof -
  have h: "fst (IocpProcessInit (good_env\<lparr>CreateThread_result := None\<rparr>) 1 start_world) = TCL_ERROR"
    by (simp add: IocpProcessInit_def good_env_def Let_def set_completion_port_def
      set_completion_thread_def opened_def called_def start_world_def)
  show ?thesis
    using h IocpProcessInit_unwinds [OF h]
    by (simp add: IocpProcessInit_def good_env_def Let_def set_completion_port_def
      set_completion_thread_def opened_def called_def start_world_def CloseHandle_def
      WSACleanup_def Iocp_ReportLastError_def)
qed

section \<open>Package initialisation\<close>

lemma Iocp_DoOnce_mem:
  assumes "Iocp_DoOnce others once_fn cd g w = Some r"
  shows "mem r = w \<or> mem r = snd (once_fn cd w)"
  using assms
  by (auto simp: Iocp_DoOnce_def InterlockedCompareExchange_def Let_def
      split: if_splits option.splits)

lemma Iocp_DoOnce_calls:
  assumes "Iocp_DoOnce others (IocpProcessInit env) interp g w = Some r"
  shows "\<exists>cs. calls (mem r) = calls w @ cs \<and> (\<forall>a s. Ev_Tcl_CreateObjCommand a s \<notin> set cs)"
  using Iocp_DoOnce_mem [OF assms] IocpProcessInit_calls [of env interp w] by auto

text \<open>
  C10.  \<open>Iocp_Init\<close> never returns \<open>TCL_OK\<close>: whenever it returns, it returns
  \<open>TCL_ERROR\<close> and has not registered the command \<open>iocp::socket\<close>.  When the
  stubs are in place, the one-time process initialisation has succeeded and the
  thread's slot has an address, \<open>IocpThreadInit\<close> returns \<open>TCL_OK\<close>, which is 0, the
  negated test holds, and \<open>Iocp_Init\<close> returns \<open>TCL_ERROR\<close>; it sets the result
  "Unable to do thread initialization for ..." if the interpreter's result is empty
  and leaves the result as it is otherwise.
\<close>

theorem Iocp_Init_never_ok:
  "(\<forall>g' w'. Iocp_Init env interp g w \<noteq> Some (Inr (TCL_OK, g', w'))) \<and>
   (\<forall>rc g' w'. Iocp_Init env interp g w = Some (Inr (rc, g', w')) \<longrightarrow>
      rc = TCL_ERROR \<and>
      (\<exists>cs. calls w' = calls w @ cs \<and> Ev_Tcl_CreateObjCommand interp ''iocp::socket'' \<notin> set cs)) \<and>
   (\<forall>r. \<not> (USE_TCL_STUBS env \<and> \<not> Tcl_InitStubs_ok env) \<and>
        Iocp_DoOnce (other_threads env) (IocpProcessInit env) interp g w = Some r \<and>
        rcode r = TCL_OK \<and> IOCP_TSD_INIT_result env \<noteq> None \<longrightarrow>
      Iocp_Init env interp g w =
        Some (Inr (TCL_ERROR, gate r,
          if objResult (interps (mem r) interp) = []
          then Tcl_SetResult interp
                 (''Unable to do thread initialization for '' @ PACKAGE_NAME env @ ''.'') (mem r)
          else mem r)))"
proof (intro conjI allI impI)
  fix g' w'
  show "Iocp_Init env interp g w \<noteq> Some (Inr (TCL_OK, g', w'))"
    by (simp add: Iocp_Init_def IocpThreadInit_eq split: option.splits)
next
  fix rc g' w'
  assume a: "Iocp_Init env interp g w = Some (Inr (rc, g', w'))"
  show "rc = TCL_ERROR"
    using a by (auto simp: Iocp_Init_def IocpThreadInit_eq split: option.splits if_splits)
  show "\<exists>cs. calls w' = calls w @ cs \<and> Ev_Tcl_CreateObjCommand interp ''iocp::socket'' \<notin> set cs"
  proof (cases "USE_TCL_STUBS env \<and> \<not> Tcl_InitStubs_ok env")
    case True
    with a show ?thesis by (simp add: Iocp_Init_def)
  next
    case False
    with a obtain r where r:
      "Iocp_DoOnce (other_threads env) (IocpProcessInit env) interp g w = Some r"
      by (auto simp: Iocp_Init_def split: option.splits)
    from Iocp_DoOnce_calls [OF r] obtain cs where cs:
      "calls (mem r) = calls w @ cs" "\<forall>a s. Ev_Tcl_CreateObjCommand a s \<notin> set cs" by blast
    have "w' = mem r \<or> (\<exists>s. w' = Tcl_SetResult interp s (mem r))"
      using a False r by (auto simp: Iocp_Init_def IocpThreadInit_eq split: if_splits)
    then show ?thesis
    proof
      assume "w' = mem r"
      with cs show ?thesis by auto
    next
      assume "\<exists>s. w' = Tcl_SetResult interp s (mem r)"
      then obtain s where "w' = Tcl_SetResult interp s (mem r)" ..
      then have "calls w' = calls w @ (cs @ [Ev_Tcl_SetResult interp s])"
        using cs(1) by (simp add: Tcl_SetResult_def called_def)
      moreover have "Ev_Tcl_CreateObjCommand interp ''iocp::socket'' \<notin>
          set (cs @ [Ev_Tcl_SetResult interp s])"
        using cs(2) by simp
      ultimately show ?thesis by blast
    qed
  qed
next
  fix r
  assume "\<not> (USE_TCL_STUBS env \<and> \<not> Tcl_InitStubs_ok env) \<and>
        Iocp_DoOnce (other_threads env) (IocpProcessInit env) interp g w = Some r \<and>
        rcode r = TCL_OK \<and> IOCP_TSD_INIT_result env \<noteq> None"
  then show "Iocp_Init env interp g w =
        Some (Inr (TCL_ERROR, gate r,
          if objResult (interps (mem r) interp) = []
          then Tcl_SetResult interp
                 (''Unable to do thread initialization for '' @ PACKAGE_NAME env @ ''.'') (mem r)
          else mem r))"
    by (auto simp: Iocp_Init_def IocpThreadInit_eq)
qed

text \<open>
  A process that has not used the module, with an empty interpreter result and every
  call of the environment succeeding: the process initialisation runs and succeeds,
  and \<open>Iocp_Init\<close> sets the message and returns \<open>TCL_ERROR\<close>.
\<close>

theorem Iocp_Init_never_ok_witness:
  "\<not> (USE_TCL_STUBS good_env \<and> \<not> Tcl_InitStubs_ok good_env) \<and>
   IOCP_TSD_INIT_result good_env \<noteq> None \<and>
   fst (IocpProcessInit good_env 1 start_world) = TCL_OK \<and>
   Iocp_Init good_env 1 IOCP_INITSTATE_INIT start_world =
     Some (Inr (TCL_ERROR, IOCP_INITSTATE_DONE,
       Tcl_SetResult 1 ''Unable to do thread initialization for iocp.''
         (snd (IocpProcessInit good_env 1 start_world))))"
  using Iocp_Init_never_ok [of good_env 1 IOCP_INITSTATE_INIT start_world]
  by (simp add: Iocp_Init_def Iocp_DoOnce_def InterlockedCompareExchange_def Let_def
      IocpThreadInit_eq IocpProcessInit_def good_env_def set_completion_port_def
      set_completion_thread_def opened_def called_def start_world_def
      no_interps_def)

text \<open>
  The same with a result already in the interpreter: the process initialisation
  succeeds, \<open>Iocp_Init\<close> returns \<open>TCL_ERROR\<close>, and the result is still the old one;
  \<open>Tcl_SetResult\<close> has not been called.
\<close>

theorem Iocp_Init_message_counterexample:
  "fst (IocpProcessInit good_env 1 busy_world) = TCL_OK \<and>
   Iocp_Init good_env 1 IOCP_INITSTATE_INIT busy_world =
     Some (Inr (TCL_ERROR, IOCP_INITSTATE_DONE, snd (IocpProcessInit good_env 1 busy_world))) \<and>
   objResult (interps (snd (IocpProcessInit good_env 1 busy_world)) 1) = ''busy'' \<and>
   calls (snd (IocpProcessInit good_env 1 busy_world)) =
     [Ev_CreateIoCompletionPort, Ev_WSAStartup, Ev_CreateThread, Ev_Tcl_CreateExitHandler]"
  by (simp add: Iocp_Init_def Iocp_DoOnce_def InterlockedCompareExchange_def Let_def
      IocpThreadInit_eq IocpProcessInit_def good_env_def set_completion_port_def
      set_completion_thread_def opened_def called_def busy_world_def start_world_def
      busy_interps_def)

end
